theory Spec2Isabelle
  imports Complex_Main
begin

section \<open>Python values read off the vehicle snapshot\<close>

text \<open>
  The vehicle object handed out by the account session carries attributes whose values are
  \<^verbatim>\<open>None\<close>, booleans, integers, floats, strings or timestamps. A float is modelled by the
  rational it denotes, or one of the three special values; every finite float is a rational,
  so a statement over all rationals covers all finite floats.
\<close>

datatype pyfloat = Finite rat | PosInf | NegInf | NaN

datatype pyval =
    VNone
  | VBool bool
  | VInt int
  | VFloat pyfloat
  | VStr string
  | VDatetime int

text \<open>Exceptions, by the class the handlers of the source distinguish, with their message.\<close>

datatype exc =
    AuthenticationError string
  | APIError string
  | TypeError string
  | ValueError string
  | OverflowError string
  | AttributeError string
  | KeyError string
  | StopIteration string
  | AbortFlow string
  | OtherException string
  | ConfigEntryAuthFailed string
  | ConfigEntryError string
  | ConfigEntryNotReady string

fun exc_str :: "exc \<Rightarrow> string" where
  "exc_str (AuthenticationError m) = m"
| "exc_str (APIError m) = m"
| "exc_str (TypeError m) = m"
| "exc_str (ValueError m) = m"
| "exc_str (OverflowError m) = m"
| "exc_str (AttributeError m) = m"
| "exc_str (KeyError m) = m"
| "exc_str (StopIteration m) = m"
| "exc_str (AbortFlow m) = m"
| "exc_str (OtherException m) = m"
| "exc_str (ConfigEntryAuthFailed m) = m"
| "exc_str (ConfigEntryError m) = m"
| "exc_str (ConfigEntryNotReady m) = m"

text \<open>Truth value testing, as \<^verbatim>\<open>if x:\<close> and \<^verbatim>\<open>x or y\<close> apply it.\<close>

fun truthy :: "pyval \<Rightarrow> bool" where
  "truthy VNone = False"
| "truthy (VBool b) = b"
| "truthy (VInt n) = (n \<noteq> 0)"
| "truthy (VFloat (Finite q)) = (q \<noteq> 0)"
| "truthy (VFloat _) = True"
| "truthy (VStr s) = (s \<noteq> [])"
| "truthy (VDatetime _) = True"

subsection \<open>The builtin \<^verbatim>\<open>int()\<close>, \<^verbatim>\<open>str.strip()\<close> and \<^verbatim>\<open>str.lower()\<close> on ASCII text\<close>

definition py_isspace :: "char \<Rightarrow> bool" where
  "py_isspace c = (let n = (of_char c :: nat) in (9 \<le> n \<and> n \<le> 13) \<or> (28 \<le> n \<and> n \<le> 32))"

definition py_strip :: "string \<Rightarrow> string" where
  "py_strip s = rev (dropWhile py_isspace (rev (dropWhile py_isspace s)))"

definition py_lower_char :: "char \<Rightarrow> char" where
  "py_lower_char c = (let n = (of_char c :: nat) in
     if 65 \<le> n \<and> n \<le> 90 then char_of (n + 32) else c)"

definition py_lower :: "string \<Rightarrow> string" where
  "py_lower s = map py_lower_char s"

definition is_digit :: "char \<Rightarrow> bool" where
  "is_digit c = (let n = (of_char c :: nat) in 48 \<le> n \<and> n \<le> 57)"

definition digit_val :: "char \<Rightarrow> int" where
  "digit_val c = int (of_char c) - 48"

text \<open>
  Decimal digits with single underscores between them; the flag says whether the previous
  character was a digit, the counter is the number of digits read.
\<close>

fun parse_digits :: "string \<Rightarrow> bool \<Rightarrow> nat \<Rightarrow> int \<Rightarrow> (nat \<times> int) option" where
  "parse_digits [] prev cnt acc = (if prev then Some (cnt, acc) else None)"
| "parse_digits (c # cs) prev cnt acc =
     (if is_digit c then parse_digits cs True (Suc cnt) (acc * 10 + digit_val c)
      else if c = CHR ''_'' \<and> prev then parse_digits cs False cnt acc
      else None)"

definition max_str_digits :: nat where
  "max_str_digits = 4300"

definition int_of_str :: "string \<Rightarrow> exc + int" where
  "int_of_str s =
     (let t = py_strip s;
          neg = (t \<noteq> [] \<and> hd t = CHR ''-'');
          body = (if t \<noteq> [] \<and> (hd t = CHR ''-'' \<or> hd t = CHR ''+'') then tl t else t)
      in case parse_digits body False 0 0 of
           None \<Rightarrow> Inl (ValueError ''invalid literal for int() with base 10'')
         | Some (cnt, n) \<Rightarrow>
             if max_str_digits < cnt
             then Inl (ValueError ''Exceeds the limit for integer string conversion'')
             else Inr (if neg then - n else n))"

fun py_int :: "pyval \<Rightarrow> exc + int" where
  "py_int VNone = Inl (TypeError ''int() argument must be a string or a real number'')"
| "py_int (VBool b) = Inr (if b then 1 else 0)"
| "py_int (VInt n) = Inr n"
| "py_int (VFloat (Finite q)) = Inr (if q < 0 then \<lceil>q\<rceil> else \<lfloor>q\<rfloor>)"
| "py_int (VFloat NaN) = Inl (ValueError ''cannot convert float NaN to integer'')"
| "py_int (VFloat _) = Inl (OverflowError ''cannot convert float infinity to integer'')"
| "py_int (VStr s) = int_of_str s"
| "py_int (VDatetime _) = Inl (TypeError ''int() argument must be a string or a real number'')"

section \<open>The vehicle coordinator\<close>

text \<open>
  A vehicle object is its attribute namespace: \<^verbatim>\<open>hasattr(v, f)\<close> is \<open>v f \<noteq> None\<close> and
  \<^verbatim>\<open>v.f\<close> on a present attribute is the stored value. The object defines neither
  \<^verbatim>\<open>__bool__\<close> nor \<^verbatim>\<open>__len__\<close>, so it is always true in a condition.

  The coordinator's \<^verbatim>\<open>data\<close> is \<^verbatim>\<open>None\<close> before the first refresh and afterwards the
  dictionary returned by the update method. \<open>update_interval\<close> is the scan interval in
  minutes; \<open>last_update_success\<close> is the flag the host's coordinator base class keeps.
  The reference to the shared vehicle manager is not a field: the manager's state is passed
  to every operation that uses it.
\<close>

type_synonym vehicle = "string \<rightharpoonup> pyval"

type_synonym pydict = "(string \<times> vehicle) list"

record coordinator =
  vehicle_id :: string
  vehicle_name :: pyval
  vehicle_model :: pyval
  update_interval :: int
  data :: "pydict option"
  last_update_success :: bool
  climate_desired_defrost :: bool
  climate_desired_heating_acc :: bool

definition new_coordinator :: "string \<Rightarrow> pyval \<Rightarrow> pyval \<Rightarrow> int \<Rightarrow> coordinator" where
  "new_coordinator vid name model scan_interval =
     \<lparr> vehicle_id = vid, vehicle_name = name, vehicle_model = model,
       update_interval = scan_interval, data = None, last_update_success = True,
       climate_desired_defrost = False, climate_desired_heating_acc = False \<rparr>"

definition vehicle_of :: "coordinator \<Rightarrow> vehicle option" where
  "vehicle_of c =
     (case data c of
        None \<Rightarrow> None
      | Some d \<Rightarrow> if d \<noteq> [] \<and> map_of d ''vehicle'' \<noteq> None then map_of d ''vehicle'' else None)"

text \<open>
  The body shared by the projecting getters:
  \<^verbatim>\<open>if self.vehicle and hasattr(self.vehicle, f): return self.vehicle.f\<close>, else
  \<^verbatim>\<open>return None\<close>.
\<close>

definition snapshot_attr :: "coordinator \<Rightarrow> string \<Rightarrow> pyval" where
  "snapshot_attr c f =
     (case vehicle_of c of
        None \<Rightarrow> VNone
      | Some v \<Rightarrow> (case v f of None \<Rightarrow> VNone | Some x \<Rightarrow> x))"

definition can_remote_lock :: "coordinator \<Rightarrow> bool" where
  "can_remote_lock c = True"








definition last_synced_to_cloud :: "coordinator \<Rightarrow> pyval" where
  "last_synced_to_cloud c = snapshot_attr c ''last_updated_at''"

definition last_synced_from_cloud :: "coordinator \<Rightarrow> pyval" where
  "last_synced_from_cloud c = snapshot_attr c ''last_updated_at''"


definition can_remote_climate :: "coordinator \<Rightarrow> bool" where
  "can_remote_climate c = True"

definition climate_hvac_on :: "coordinator \<Rightarrow> pyval" where
  "climate_hvac_on c = snapshot_attr c ''air_control_is_on''"

text \<open>
  The one getter that computes: the attribute is read, tested for truth, converted with
  \<^verbatim>\<open>int()\<close>, and any exception of the conversion is swallowed by the bare \<^verbatim>\<open>except\<close>.
\<close>

definition climate_temperature_value :: "coordinator \<Rightarrow> pyval" where
  "climate_temperature_value c =
     (case vehicle_of c of
        None \<Rightarrow> VNone
      | Some v \<Rightarrow>
          (case v ''air_temperature'' of
             None \<Rightarrow> VNone
           | Some temp \<Rightarrow>
               if truthy temp
               then (case py_int temp of Inr n \<Rightarrow> VInt n | Inl e \<Rightarrow> VNone)
               else VNone))"























definition has_climate_seats :: "coordinator \<Rightarrow> bool" where
  "has_climate_seats c = True"

definition climate_driver_seat :: "coordinator \<Rightarrow> int \<times> int" where
  "climate_driver_seat c = (0, 1)"

definition climate_passenger_seat :: "coordinator \<Rightarrow> int \<times> int" where
  "climate_passenger_seat c = (0, 1)"

definition climate_left_rear_seat :: "coordinator \<Rightarrow> int \<times> int" where
  "climate_left_rear_seat c = (0, 1)"

definition climate_right_rear_seat :: "coordinator \<Rightarrow> int \<times> int" where
  "climate_right_rear_seat c = (0, 1)"


section \<open>The account session and the refresh\<close>

text \<open>
  The vehicle manager of the external library is a collaborator: its state is the dictionary
  of vehicles by id (in insertion order), and each of its blocking calls is a parameter that
  says whether the call raised and what state it left.
\<close>

record manager =
  vehicles :: "(string \<times> vehicle) list"

record account_session =
  new_manager :: "string \<Rightarrow> string \<Rightarrow> exc + manager"
  check_and_refresh_token :: "manager \<Rightarrow> exc option \<times> manager"
  update_all_vehicles_with_cached_state :: "manager \<Rightarrow> exc option \<times> manager"
  update_vehicle_with_cached_state :: "manager \<Rightarrow> string \<Rightarrow> exc option \<times> manager"
  stop_climate :: "manager \<Rightarrow> string \<Rightarrow> exc option"
  start_climate :: "manager \<Rightarrow> string \<Rightarrow> int \<Rightarrow> bool \<Rightarrow> bool \<Rightarrow> bool \<Rightarrow> exc option"

text \<open>
  The update method \<^verbatim>\<open>refresh\<close> closed over \<^verbatim>\<open>vehicle_manager\<close> and \<^verbatim>\<open>vehicle_id\<close>: an
  exception of the library call is logged and raised again; a vehicle that the manager does
  not hold gives the empty dictionary; otherwise the vehicle is returned under the key
  \<^verbatim>\<open>"vehicle"\<close>.
\<close>

definition refresh :: "account_session \<Rightarrow> string \<Rightarrow> manager \<Rightarrow> (exc + pydict) \<times> manager" where
  "refresh sess vid m =
     (case update_vehicle_with_cached_state sess m vid of
        (Some err, m') \<Rightarrow> (Inl err, m')
      | (None, m') \<Rightarrow>
          (case map_of (vehicles m') vid of
             None \<Rightarrow> (Inr [], m')
           | Some v \<Rightarrow> (Inr [(''vehicle'', v)], m')))"

text \<open>
  The host's coordinator base class runs the update method: on a normal return the result
  replaces \<^verbatim>\<open>data\<close>, on an exception \<^verbatim>\<open>data\<close> is kept and the failure is recorded.
\<close>

definition async_refresh :: "account_session \<Rightarrow> coordinator \<Rightarrow> manager \<Rightarrow> coordinator \<times> manager" where
  "async_refresh sess c m =
     (case refresh sess (vehicle_id c) m of
        (Inl err, m') \<Rightarrow> (c\<lparr> last_update_success := False \<rparr>, m')
      | (Inr d, m') \<Rightarrow> (c\<lparr> data := Some d, last_update_success := True \<rparr>, m'))"

text \<open>A run of refreshes, each against the session as it behaves at that time.\<close>

fun run_refreshes :: "account_session list \<Rightarrow> coordinator \<Rightarrow> manager \<Rightarrow> coordinator \<times> manager" where
  "run_refreshes [] c m = (c, m)"
| "run_refreshes (sess # rest) c m =
     (case async_refresh sess c m of (c', m') \<Rightarrow> run_refreshes rest c' m')"

text \<open>
  A session keeps a vehicle when its per-vehicle update, whenever it returns normally,
  leaves that id in the manager's dictionary.
\<close>

definition keeps_vehicle :: "account_session \<Rightarrow> string \<Rightarrow> bool" where
  "keeps_vehicle sess vid =
     (\<forall>m. fst (update_vehicle_with_cached_state sess m vid) = None \<longrightarrow>
          map_of (vehicles (snd (update_vehicle_with_cached_state sess m vid))) vid \<noteq> None)"

section \<open>The thermostat entity\<close>

definition HVACMode_OFF :: string where "HVACMode_OFF = ''off''"
definition HVACMode_HEAT_COOL :: string where "HVACMode_HEAT_COOL = ''heat_cool''"
definition HVACMode_AUTO :: string where "HVACMode_AUTO = ''auto''"

record thermostat =
  coordinator :: coordinator
  attr_target_temperature :: pyval

text \<open>
  The constructor: \<^verbatim>\<open>int(self.coordinator.climate_temperature_value or 72)\<close>.
\<close>

definition thermostat_init :: "coordinator \<Rightarrow> exc + thermostat" where
  "thermostat_init c =
     (let t = climate_temperature_value c;
          x = (if truthy t then t else VInt 72)
      in case py_int x of
           Inl err \<Rightarrow> Inl err
         | Inr n \<Rightarrow> Inr \<lparr> coordinator = c, attr_target_temperature = VInt n \<rparr>)"

definition target_temperature :: "thermostat \<Rightarrow> pyval" where
  "target_temperature th = attr_target_temperature th"

definition hvac_mode :: "thermostat \<Rightarrow> string" where
  "hvac_mode th =
     (if truthy (climate_hvac_on (coordinator th)) then HVACMode_HEAT_COOL else HVACMode_OFF)"

text \<open>What the entity does to its collaborators, in order.\<close>

datatype event =
    StopClimate string
  | StartClimate string int bool bool bool
  | UpdateListeners
  | RequestRefresh

text \<open>
  \<^verbatim>\<open>async_set_hvac_mode\<close>: the events issued and the exception that ended the call, if any.
  An exception of the command, or of \<^verbatim>\<open>int(self.target_temperature)\<close>, leaves the method
  before the listeners are updated and the refresh is requested.
\<close>

definition async_set_hvac_mode ::
  "account_session \<Rightarrow> manager \<Rightarrow> thermostat \<Rightarrow> string \<Rightarrow> event list \<times> exc option" where
  "async_set_hvac_mode sess m th mode =
     (let c = coordinator th; k = py_lower (py_strip mode) in
      if k = HVACMode_OFF then
        (case stop_climate sess m (vehicle_id c) of
           Some err \<Rightarrow> ([StopClimate (vehicle_id c)], Some err)
         | None \<Rightarrow> ([StopClimate (vehicle_id c), UpdateListeners, RequestRefresh], None))
      else if k = HVACMode_HEAT_COOL \<or> k = HVACMode_AUTO then
        (case py_int (target_temperature th) of
           Inl err \<Rightarrow> ([], Some err)
         | Inr t \<Rightarrow>
             (let call = StartClimate (vehicle_id c) t (climate_desired_defrost c) True
                           (climate_desired_heating_acc c)
              in case start_climate sess m (vehicle_id c) t (climate_desired_defrost c) True
                        (climate_desired_heating_acc c) of
                   Some err \<Rightarrow> ([call], Some err)
                 | None \<Rightarrow> ([call, UpdateListeners, RequestRefresh], None)))
      else ([UpdateListeners, RequestRefresh], None))"

definition async_set_temperature :: "thermostat \<Rightarrow> pyval option \<Rightarrow> thermostat \<times> event list" where
  "async_set_temperature th temperature =
     (th\<lparr> attr_target_temperature := (case temperature of None \<Rightarrow> VNone | Some t \<Rightarrow> t) \<rparr>,
      [UpdateListeners])"

section \<open>Integration setup\<close>

text \<open>
  The config entry as setup reads it, the per-entry state stored under the integration's
  domain in the host's data (\<open>None\<close>: the domain key is not there yet), and the two things
  setup takes from outside: the default scan interval of the constants module and the
  outcome of forwarding the entry to the platforms.
\<close>

record config_entry =
  entry_id :: string
  conf_username :: string
  conf_password :: string
  conf_scan_interval :: "int option"
  update_listeners :: nat

record entry_data =
  coordinators :: "(string \<times> coordinator) list"
  vehicle_manager :: manager

record hass =
  domain_data :: "(string \<rightharpoonup> entry_data) option"

record host =
  default_scan_interval :: int
  forward_entry_setups :: "exc option"

datatype setup_event =
    SetupServices
  | CoordinatorCreated string
  | ForwardEntrySetups
  | AddUpdateListener

definition getattr :: "vehicle \<Rightarrow> string \<Rightarrow> exc + pyval" where
  "getattr v f = (case v f of None \<Rightarrow> Inl (AttributeError f) | Some x \<Rightarrow> Inr x)"

text \<open>
  The body of the \<^verbatim>\<open>try\<close> block: construct the manager, refresh the token, fetch all
  vehicles. The first exception ends it.
\<close>

definition login :: "account_session \<Rightarrow> string \<Rightarrow> string \<Rightarrow> exc + manager" where
  "login sess username password =
     (case new_manager sess username password of
        Inl err \<Rightarrow> Inl err
      | Inr m0 \<Rightarrow>
          (case check_and_refresh_token sess m0 of
             (Some err, m1) \<Rightarrow> Inl err
           | (None, m1) \<Rightarrow>
               (case update_all_vehicles_with_cached_state sess m1 of
                  (Some err, m2) \<Rightarrow> Inl err
                | (None, m2) \<Rightarrow> Inr m2)))"

text \<open>The \<^verbatim>\<open>except\<close> clauses of setup, in their order.\<close>

fun setup_error :: "exc \<Rightarrow> exc" where
  "setup_error (AuthenticationError msg) = ConfigEntryAuthFailed msg"
| "setup_error (APIError msg) = ConfigEntryError (''API error: '' @ msg)"
| "setup_error err = ConfigEntryError (''Unexpected error: '' @ exc_str err)"

text \<open>
  The host's first refresh: it runs the update method once and raises a not-ready error when
  that fails.
\<close>

definition async_config_entry_first_refresh ::
  "account_session \<Rightarrow> coordinator \<Rightarrow> manager \<Rightarrow> (exc + coordinator) \<times> manager" where
  "async_config_entry_first_refresh sess c m =
     (case async_refresh sess c m of
        (c', m') \<Rightarrow>
          if last_update_success c' then (Inr c', m')
          else (Inl (ConfigEntryNotReady ''first refresh failed''), m'))"

text \<open>
  The loop over \<^verbatim>\<open>vehicle_manager.vehicles.items()\<close>: for each vehicle a coordinator is
  constructed and refreshed once, then stored under the vehicle id. An exception leaves the
  loop with the events so far.
\<close>

fun setup_coordinators ::
  "account_session \<Rightarrow> int \<Rightarrow> (string \<times> vehicle) list \<Rightarrow> manager \<Rightarrow> (string \<times> coordinator) list
     \<Rightarrow> (exc + (string \<times> coordinator) list \<times> manager) \<times> setup_event list" where
  "setup_coordinators sess scan [] m acc = (Inr (acc, m), [])"
| "setup_coordinators sess scan ((vid, v) # rest) m acc =
     (case getattr v ''name'' of
        Inl err \<Rightarrow> (Inl err, [])
      | Inr name \<Rightarrow>
          (case getattr v ''model'' of
             Inl err \<Rightarrow> (Inl err, [])
           | Inr model \<Rightarrow>
               (case async_config_entry_first_refresh sess (new_coordinator vid name model scan) m of
                  (Inl err, m') \<Rightarrow> (Inl err, [CoordinatorCreated vid])
                | (Inr c, m') \<Rightarrow>
                    (case setup_coordinators sess scan rest m' (acc @ [(vid, c)]) of
                       (res, tr) \<Rightarrow> (res, CoordinatorCreated vid # tr)))))"

definition async_setup_entry ::
  "host \<Rightarrow> account_session \<Rightarrow> hass \<Rightarrow> config_entry \<Rightarrow> (exc + bool) \<times> hass \<times> setup_event list" where
  "async_setup_entry env sess hs entry =
     (let hs1 = hs\<lparr> domain_data :=
                   Some (case domain_data hs of None \<Rightarrow> Map.empty | Some d \<Rightarrow> d) \<rparr>;
          scan_interval =
            (case conf_scan_interval entry of None \<Rightarrow> default_scan_interval env | Some n \<Rightarrow> n)
      in case login sess (conf_username entry) (conf_password entry) of
           Inl err \<Rightarrow> (Inl (setup_error err), hs1, [SetupServices])
         | Inr m \<Rightarrow>
             if vehicles m = [] then
               (Inl (ConfigEntryError ''No vehicles found in account''), hs1, [SetupServices])
             else
               (case setup_coordinators sess scan_interval (vehicles m) m [] of
                  (Inl err, tr) \<Rightarrow> (Inl err, hs1, SetupServices # tr)
                | (Inr (coords, m'), tr) \<Rightarrow>
                    (let stored = \<lparr> coordinators = coords, vehicle_manager = m' \<rparr>;
                         hs2 = hs1\<lparr> domain_data :=
                                 Some ((case domain_data hs1 of None \<Rightarrow> Map.empty | Some d \<Rightarrow> d)
                                         (entry_id entry \<mapsto> stored)) \<rparr>
                     in case forward_entry_setups env of
                          Some err \<Rightarrow> (Inl err, hs2, SetupServices # tr @ [ForwardEntrySetups])
                        | None \<Rightarrow>
                            (Inr True, hs2,
                             SetupServices # tr @ [ForwardEntrySetups] @
                               (if update_listeners entry = 0 then [AddUpdateListener] else [])))))"

definition per_entry_state :: "hass \<Rightarrow> string \<Rightarrow> entry_data option" where
  "per_entry_state hs eid = (case domain_data hs of None \<Rightarrow> None | Some d \<Rightarrow> d eid)"

fun is_coordinator_created :: "setup_event \<Rightarrow> bool" where
  "is_coordinator_created (CoordinatorCreated vid) = True"
| "is_coordinator_created _ = False"

definition coordinators_created :: "setup_event list \<Rightarrow> setup_event list" where
  "coordinators_created tr = filter is_coordinator_created tr"

section \<open>The config flow\<close>

record user_input =
  username :: string
  password :: string

datatype flow_result =
    ShowForm string "(string \<times> string) list"
  | CreateEntry string user_input
  | Abort string
  | UpdateReloadAndAbort "user_input option"

text \<open>
  The flow handler: the credentials kept for later, the manager once constructed, whether
  the flow was started for re-authentication, and the unique ids the host already has an
  entry for.
\<close>

record flow =
  flow_data :: "user_input option"
  flow_manager :: "manager option"
  source_is_reauth :: bool
  configured_unique_ids :: "string list"

definition async_step_create_entries :: "flow \<Rightarrow> exc + flow_result" where
  "async_step_create_entries fl =
     (case flow_manager fl of
        None \<Rightarrow> Inr (Abort ''unknown'')
      | Some m \<Rightarrow>
          if source_is_reauth fl then Inr (UpdateReloadAndAbort (flow_data fl))
          else
            (case vehicles m of
               [] \<Rightarrow> Inl (StopIteration [])
             | first_vehicle # others \<Rightarrow>
                 (case flow_data fl of
                    None \<Rightarrow> Inl (KeyError ''username'')
                  | Some d \<Rightarrow>
                      if ''kia_usa_'' @ username d \<in> set (configured_unique_ids fl)
                      then Inl (AbortFlow ''already_configured'')
                      else Inr (CreateEntry (''Kia USA Account ('' @ username d @ '')'') d))))"

text \<open>The \<^verbatim>\<open>except\<close> clauses of the user step, in their order.\<close>

fun flow_error :: "exc \<Rightarrow> string" where
  "flow_error (AuthenticationError msg) = ''invalid_auth''"
| "flow_error (APIError msg) = ''cannot_connect''"
| "flow_error err = ''unknown''"

definition async_step_user :: "account_session \<Rightarrow> flow \<Rightarrow> user_input option \<Rightarrow> flow \<times> flow_result" where
  "async_step_user sess fl inp_opt =
     (case inp_opt of
        None \<Rightarrow> (fl, ShowForm ''user'' [])
      | Some inp \<Rightarrow>
          (case new_manager sess (username inp) (password inp) of
             Inl err \<Rightarrow> (fl, ShowForm ''user'' [(''base'', flow_error err)])
           | Inr m0 \<Rightarrow>
               (case check_and_refresh_token sess m0 of
                  (Some err, m1) \<Rightarrow>
                    (fl\<lparr> flow_manager := Some m1 \<rparr>, ShowForm ''user'' [(''base'', flow_error err)])
                | (None, m1) \<Rightarrow>
                    (case update_all_vehicles_with_cached_state sess m1 of
                       (Some err, m2) \<Rightarrow>
                         (fl\<lparr> flow_manager := Some m2 \<rparr>,
                          ShowForm ''user'' [(''base'', flow_error err)])
                     | (None, m2) \<Rightarrow>
                         if vehicles m2 = [] then
                           (fl\<lparr> flow_manager := Some m2 \<rparr>,
                            ShowForm ''user'' [(''base'', ''no_vehicles'')])
                         else
                           (let fl' = fl\<lparr> flow_manager := Some m2, flow_data := Some inp \<rparr>
                            in case async_step_create_entries fl' of
                                 Inr res \<Rightarrow> (fl', res)
                               | Inl err \<Rightarrow>
                                   (fl', ShowForm ''user'' [(''base'', flow_error err)]))))))"

section \<open>Sample states\<close>

definition example_vehicle :: vehicle where
  "example_vehicle =
     [''door_lock'' \<mapsto> VBool True, ''air_control_is_on'' \<mapsto> VBool True,
      ''air_temperature'' \<mapsto> VStr ''72'', ''last_updated_at'' \<mapsto> VDatetime 1700000000,
      ''name'' \<mapsto> VStr ''EV6'', ''model'' \<mapsto> VStr ''EV6'']"

definition example_coordinator :: coordinator where
  "example_coordinator =
     (new_coordinator ''KNDC3DLC5N5000001'' (VStr ''EV6'') (VStr ''EV6'') 10)
       \<lparr> data := Some [(''vehicle'', example_vehicle)] \<rparr>"

definition fresh_coordinator :: coordinator where
  "fresh_coordinator = new_coordinator ''KNDC3DLC5N5000001'' (VStr ''EV6'') (VStr ''EV6'') 10"

definition zero_temperature_vehicle :: vehicle where
  "zero_temperature_vehicle = [''air_temperature'' \<mapsto> VInt 0]"

definition zero_temperature_coordinator :: coordinator where
  "zero_temperature_coordinator =
     fresh_coordinator \<lparr> data := Some [(''vehicle'', zero_temperature_vehicle)] \<rparr>"

definition example_manager :: manager where
  "example_manager = \<lparr> vehicles = [(''KNDC3DLC5N5000001'', example_vehicle)] \<rparr>"

text \<open>
  A session whose calls leave the manager as it is and return normally, except that the
  per-vehicle update raises for an id the manager does not hold.
\<close>

definition steady_session :: account_session where
  "steady_session =
     \<lparr> new_manager = (\<lambda>username password. Inr example_manager),
       check_and_refresh_token = (\<lambda>m. (None, m)),
       update_all_vehicles_with_cached_state = (\<lambda>m. (None, m)),
       update_vehicle_with_cached_state =
         (\<lambda>m vid. if map_of (vehicles m) vid = None then (Some (KeyError vid), m) else (None, m)),
       stop_climate = (\<lambda>m vid. None),
       start_climate = (\<lambda>m vid temp defrost climate heating. None) \<rparr>"

text \<open>A session whose per-vehicle update returns normally with the vehicle gone.\<close>

definition forgetful_session :: account_session where
  "forgetful_session =
     steady_session \<lparr> update_vehicle_with_cached_state := (\<lambda>m vid. (None, m\<lparr> vehicles := [] \<rparr>)) \<rparr>"

definition example_thermostat :: thermostat where
  "example_thermostat = \<lparr> coordinator = example_coordinator, attr_target_temperature = VInt 72 \<rparr>"

definition fresh_thermostat :: thermostat where
  "fresh_thermostat = \<lparr> coordinator = fresh_coordinator, attr_target_temperature = VInt 72 \<rparr>"

definition example_entry :: config_entry where
  "example_entry =
     \<lparr> entry_id = ''entry-1'', conf_username = ''driver@example.com'',
       conf_password = ''secret'', conf_scan_interval = None, update_listeners = 0 \<rparr>"

definition example_host :: host where
  "example_host = \<lparr> default_scan_interval = 10, forward_entry_setups = None \<rparr>"

definition empty_hass :: hass where
  "empty_hass = \<lparr> domain_data = None \<rparr>"

definition example_input :: user_input where
  "example_input = \<lparr> username = ''driver@example.com'', password = ''secret'' \<rparr>"

definition new_flow :: flow where
  "new_flow = \<lparr> flow_data = None, flow_manager = None, source_is_reauth = False,
                configured_unique_ids = [] \<rparr>"

text \<open>Sessions that fail at the login boundary, and one whose account has no vehicle.\<close>

definition expired_session :: account_session where
  "expired_session =
     steady_session \<lparr> check_and_refresh_token :=
                       (\<lambda>m. (Some (AuthenticationError ''Login failed''), m)) \<rparr>"

definition offline_session :: account_session where
  "offline_session =
     steady_session \<lparr> update_all_vehicles_with_cached_state :=
                       (\<lambda>m. (Some (APIError ''Service unavailable''), m)) \<rparr>"

definition empty_account_session :: account_session where
  "empty_account_session =
     steady_session \<lparr> new_manager := (\<lambda>username password. Inr \<lparr> vehicles = [] \<rparr>) \<rparr>"

section \<open>Properties of the coordinator getters\<close>


lemma vehicle_of_example: "vehicle_of example_coordinator = Some example_vehicle"
  by (simp add: vehicle_of_def example_coordinator_def)

lemma vehicle_of_fresh: "vehicle_of fresh_coordinator = None"
  by (simp add: vehicle_of_def fresh_coordinator_def new_coordinator_def)




lemma temperature_none:
  "vehicle_of c = None \<or> (\<exists>v. vehicle_of c = Some v \<and> v ''air_temperature'' = None)
     \<Longrightarrow> climate_temperature_value c = VNone"
  by (auto simp: climate_temperature_value_def)



lemma int_of_str_nonempty: "int_of_str s = Inr n \<Longrightarrow> s \<noteq> []"
  by (auto simp: int_of_str_def py_strip_def)

text \<open>
  C6 as stated fails: the integer 0 converts to the integer 0, but the truth test before
  the conversion sends it to \<^verbatim>\<open>None\<close>.
\<close>

theorem climate_temperature_value_zero_counterexample:
  "vehicle_of zero_temperature_coordinator = Some zero_temperature_vehicle \<and>
   zero_temperature_vehicle ''air_temperature'' = Some (VInt 0) \<and>
   py_int (VInt 0) = Inr 0 \<and>
   climate_temperature_value zero_temperature_coordinator = VNone \<and>
   climate_temperature_value zero_temperature_coordinator \<noteq> VInt 0"
  by (simp add: zero_temperature_coordinator_def zero_temperature_vehicle_def vehicle_of_def
      climate_temperature_value_def)

text \<open>
  C6, amended: \<open>climate_temperature_value\<close> returns \<^verbatim>\<open>None\<close> without a snapshot or
  attribute; for an attribute value that is true in a condition and converts with
  \<^verbatim>\<open>int()\<close> it returns the converted integer (every string that converts is non-empty,
  hence true); for a value that is false in a condition (\<^verbatim>\<open>None\<close>, zero, the empty
  string) or whose conversion raises, it returns \<^verbatim>\<open>None\<close>.
\<close>

theorem climate_temperature_value_coerces:
  "(vehicle_of c = None \<or> (\<exists>v. vehicle_of c = Some v \<and> v ''air_temperature'' = None)
      \<longrightarrow> climate_temperature_value c = VNone) \<and>
   (\<forall>v t n. vehicle_of c = Some v \<and> v ''air_temperature'' = Some t \<and> truthy t \<and>
        py_int t = Inr n \<longrightarrow> climate_temperature_value c = VInt n) \<and>
   (\<forall>v s n. vehicle_of c = Some v \<and> v ''air_temperature'' = Some (VStr s) \<and>
        int_of_str s = Inr n \<longrightarrow> climate_temperature_value c = VInt n) \<and>
   (\<forall>v t. vehicle_of c = Some v \<and> v ''air_temperature'' = Some t \<and>
        (\<not> truthy t \<or> (\<exists>e. py_int t = Inl e)) \<longrightarrow> climate_temperature_value c = VNone)"
proof (intro conjI allI impI)
  assume "vehicle_of c = None \<or> (\<exists>v. vehicle_of c = Some v \<and> v ''air_temperature'' = None)"
  then show "climate_temperature_value c = VNone" by (rule temperature_none)
next
  fix v t n
  assume "vehicle_of c = Some v \<and> v ''air_temperature'' = Some t \<and> truthy t \<and> py_int t = Inr n"
  then show "climate_temperature_value c = VInt n"
    by (simp add: climate_temperature_value_def)
next
  fix v s n
  assume h: "vehicle_of c = Some v \<and> v ''air_temperature'' = Some (VStr s) \<and> int_of_str s = Inr n"
  then have "s \<noteq> []" using int_of_str_nonempty by blast
  with h show "climate_temperature_value c = VInt n"
    by (simp add: climate_temperature_value_def)
next
  fix v t
  assume "vehicle_of c = Some v \<and> v ''air_temperature'' = Some t \<and>
        (\<not> truthy t \<or> (\<exists>e. py_int t = Inl e))"
  then show "climate_temperature_value c = VNone"
    by (auto simp: climate_temperature_value_def)
qed

text \<open>The amended statement at the string \<^verbatim>\<open>"72"\<close> and at the integer 0.\<close>

theorem climate_temperature_value_coerces_witness:
  "climate_temperature_value example_coordinator = VInt 72 \<and>
   climate_temperature_value zero_temperature_coordinator = VNone"
proof -
  have s: "int_of_str ''72'' = Inr 72" by code_simp
  have a: "example_vehicle ''air_temperature'' = Some (VStr ''72'')"
    by (simp add: example_vehicle_def)
  have z: "vehicle_of zero_temperature_coordinator = Some zero_temperature_vehicle"
    by (simp add: zero_temperature_coordinator_def vehicle_of_def)
  have za: "zero_temperature_vehicle ''air_temperature'' = Some (VInt 0)"
    by (simp add: zero_temperature_vehicle_def)
  have zt: "\<not> truthy (VInt 0)" by simp
  from climate_temperature_value_coerces [of example_coordinator] vehicle_of_example a s
  have "climate_temperature_value example_coordinator = VInt 72" by fast
  moreover from climate_temperature_value_coerces [of zero_temperature_coordinator] z za zt
  have "climate_temperature_value zero_temperature_coordinator = VNone" by fast
  ultimately show ?thesis by simp
qed

text \<open>
  C8: in every coordinator state the four seat status getters return the pair \<open>(0, 1)\<close>.
\<close>

theorem seat_status_is_placeholder:
  "climate_driver_seat c = (0, 1) \<and> climate_passenger_seat c = (0, 1) \<and>
   climate_left_rear_seat c = (0, 1) \<and> climate_right_rear_seat c = (0, 1)"
  by (simp add: climate_driver_seat_def climate_passenger_seat_def
      climate_left_rear_seat_def climate_right_rear_seat_def)

text \<open>
  C9: \<open>last_synced_to_cloud\<close> and \<open>last_synced_from_cloud\<close> agree in every coordinator
  state; both project the attribute \<^verbatim>\<open>last_updated_at\<close>.
\<close>

theorem sync_timestamps_coincide:
  "last_synced_to_cloud c = last_synced_from_cloud c \<and>
   last_synced_to_cloud c = snapshot_attr c ''last_updated_at''"
  by (simp add: last_synced_to_cloud_def last_synced_from_cloud_def)

section \<open>Properties of the thermostat\<close>

text \<open>
  C10: whenever \<open>climate_hvac_on\<close> is not true in a condition, the exposed mode is
  \<^verbatim>\<open>HVACMode.OFF\<close>; before any snapshot exists \<open>climate_hvac_on\<close> is \<^verbatim>\<open>None\<close> and the
  mode is \<^verbatim>\<open>HVACMode.OFF\<close>. The mode is always one of the two, never unknown.
\<close>

theorem hvac_mode_off_unless_on:
  "(\<not> truthy (climate_hvac_on (coordinator th)) \<longrightarrow> hvac_mode th = HVACMode_OFF) \<and>
   (vehicle_of (coordinator th) = None \<longrightarrow>
      climate_hvac_on (coordinator th) = VNone \<and> hvac_mode th = HVACMode_OFF) \<and>
   (hvac_mode th = HVACMode_OFF \<or> hvac_mode th = HVACMode_HEAT_COOL)"
  by (simp add: hvac_mode_def climate_hvac_on_def snapshot_attr_def)

text \<open>The theorem at a thermostat whose coordinator has not refreshed yet.\<close>

theorem hvac_mode_off_unless_on_witness:
  "climate_hvac_on (coordinator fresh_thermostat) = VNone \<and>
   hvac_mode fresh_thermostat = ''off''"
proof -
  have "vehicle_of (coordinator fresh_thermostat) = None"
    by (simp add: fresh_thermostat_def vehicle_of_fresh)
  with hvac_mode_off_unless_on [of fresh_thermostat] show ?thesis
    by (simp add: HVACMode_OFF_def)
qed

lemma hvac_mode_heat_cool_iff:
  "hvac_mode th = HVACMode_HEAT_COOL \<longleftrightarrow>
     (\<exists>v x. vehicle_of (coordinator th) = Some v \<and> v ''air_control_is_on'' = Some x \<and> truthy x)"
  by (auto simp: hvac_mode_def climate_hvac_on_def snapshot_attr_def HVACMode_HEAT_COOL_def
      HVACMode_OFF_def split: option.splits)

lemma set_hvac_mode_heat_cool:
  assumes k: "py_lower (py_strip mode) = HVACMode_HEAT_COOL"
    and t: "py_int (target_temperature th) = Inr t"
  shows "async_set_hvac_mode sess m th mode =
     (case start_climate sess m (vehicle_id (coordinator th)) t
             (climate_desired_defrost (coordinator th)) True
             (climate_desired_heating_acc (coordinator th)) of
        None \<Rightarrow> ([StartClimate (vehicle_id (coordinator th)) t
                 (climate_desired_defrost (coordinator th)) True
                 (climate_desired_heating_acc (coordinator th)), UpdateListeners, RequestRefresh], None)
      | Some err \<Rightarrow> ([StartClimate (vehicle_id (coordinator th)) t
                 (climate_desired_defrost (coordinator th)) True
                 (climate_desired_heating_acc (coordinator th))], Some err))"
  using k t
  by (simp add: async_set_hvac_mode_def Let_def HVACMode_HEAT_COOL_def HVACMode_OFF_def
      split: option.splits)

lemma set_hvac_mode_off:
  assumes k: "py_lower (py_strip mode) = HVACMode_OFF"
  shows "async_set_hvac_mode sess m th mode =
     (case stop_climate sess m (vehicle_id (coordinator th)) of
        None \<Rightarrow> ([StopClimate (vehicle_id (coordinator th)), UpdateListeners, RequestRefresh], None)
      | Some err \<Rightarrow> ([StopClimate (vehicle_id (coordinator th))], Some err))"
  using k by (simp add: async_set_hvac_mode_def Let_def split: option.splits)

text \<open>
  C3: setting the mode to heat-cool calls \<^verbatim>\<open>start_climate\<close> with the vehicle id, the
  target temperature converted by \<^verbatim>\<open>int()\<close>, the desired defrost flag, \<^verbatim>\<open>True\<close> and the
  desired heating-accessory flag, and when the call returns the listeners are updated and a
  refresh is requested; setting it to off calls \<^verbatim>\<open>stop_climate\<close> with the vehicle id, then
  the same on return; the exposed mode is heat-cool exactly when the snapshot's
  \<^verbatim>\<open>air_control_is_on\<close> is true.
\<close>

theorem set_hvac_mode_commands:
  "(py_lower (py_strip mode) = HVACMode_HEAT_COOL \<and> py_int (target_temperature th) = Inr t \<longrightarrow>
      take 1 (fst (async_set_hvac_mode sess m th mode)) =
        [StartClimate (vehicle_id (coordinator th)) t (climate_desired_defrost (coordinator th))
           True (climate_desired_heating_acc (coordinator th))] \<and>
      (start_climate sess m (vehicle_id (coordinator th)) t
          (climate_desired_defrost (coordinator th)) True
          (climate_desired_heating_acc (coordinator th)) = None \<longrightarrow>
       async_set_hvac_mode sess m th mode =
         ([StartClimate (vehicle_id (coordinator th)) t (climate_desired_defrost (coordinator th))
             True (climate_desired_heating_acc (coordinator th)),
           UpdateListeners, RequestRefresh], None))) \<and>
   (py_lower (py_strip mode) = HVACMode_OFF \<longrightarrow>
      take 1 (fst (async_set_hvac_mode sess m th mode)) = [StopClimate (vehicle_id (coordinator th))] \<and>
      (stop_climate sess m (vehicle_id (coordinator th)) = None \<longrightarrow>
       async_set_hvac_mode sess m th mode =
         ([StopClimate (vehicle_id (coordinator th)), UpdateListeners, RequestRefresh], None))) \<and>
   (hvac_mode th = HVACMode_HEAT_COOL \<longleftrightarrow>
      (\<exists>v x. vehicle_of (coordinator th) = Some v \<and> v ''air_control_is_on'' = Some x \<and> truthy x)) \<and>
   (\<forall>v b. vehicle_of (coordinator th) = Some v \<and> v ''air_control_is_on'' = Some (VBool b) \<longrightarrow>
      (hvac_mode th = HVACMode_HEAT_COOL \<longleftrightarrow> b))"
proof (intro conjI impI allI)
  assume h: "py_lower (py_strip mode) = HVACMode_HEAT_COOL \<and> py_int (target_temperature th) = Inr t"
  show "take 1 (fst (async_set_hvac_mode sess m th mode)) =
        [StartClimate (vehicle_id (coordinator th)) t (climate_desired_defrost (coordinator th))
           True (climate_desired_heating_acc (coordinator th))]"
    using h by (simp add: set_hvac_mode_heat_cool split: option.splits)
  assume "start_climate sess m (vehicle_id (coordinator th)) t
          (climate_desired_defrost (coordinator th)) True
          (climate_desired_heating_acc (coordinator th)) = None"
  then show "async_set_hvac_mode sess m th mode =
         ([StartClimate (vehicle_id (coordinator th)) t (climate_desired_defrost (coordinator th))
             True (climate_desired_heating_acc (coordinator th)),
           UpdateListeners, RequestRefresh], None)"
    using h by (simp add: set_hvac_mode_heat_cool)
next
  assume h: "py_lower (py_strip mode) = HVACMode_OFF"
  show "take 1 (fst (async_set_hvac_mode sess m th mode)) = [StopClimate (vehicle_id (coordinator th))]"
    using h by (simp add: set_hvac_mode_off split: option.splits)
  assume "stop_climate sess m (vehicle_id (coordinator th)) = None"
  then show "async_set_hvac_mode sess m th mode =
         ([StopClimate (vehicle_id (coordinator th)), UpdateListeners, RequestRefresh], None)"
    using h by (simp add: set_hvac_mode_off)
next
  show "hvac_mode th = HVACMode_HEAT_COOL \<longleftrightarrow>
      (\<exists>v x. vehicle_of (coordinator th) = Some v \<and> v ''air_control_is_on'' = Some x \<and> truthy x)"
    by (rule hvac_mode_heat_cool_iff)
next
  fix v b
  assume "vehicle_of (coordinator th) = Some v \<and> v ''air_control_is_on'' = Some (VBool b)"
  then show "hvac_mode th = HVACMode_HEAT_COOL \<longleftrightarrow> b"
    by (simp add: hvac_mode_heat_cool_iff)
qed

text \<open>
  The scenario of the specification: target 72, no defrost, no heating accessory.
\<close>

theorem set_hvac_mode_commands_witness:
  "async_set_hvac_mode steady_session example_manager example_thermostat ''heat_cool'' =
     ([StartClimate ''KNDC3DLC5N5000001'' 72 False True False, UpdateListeners, RequestRefresh], None) \<and>
   async_set_hvac_mode steady_session example_manager example_thermostat ''off'' =
     ([StopClimate ''KNDC3DLC5N5000001'', UpdateListeners, RequestRefresh], None) \<and>
   hvac_mode example_thermostat = ''heat_cool''"
proof -
  have k1: "py_lower (py_strip ''heat_cool'') = HVACMode_HEAT_COOL" by code_simp
  have k2: "py_lower (py_strip ''off'') = HVACMode_OFF" by code_simp
  have t: "py_int (target_temperature example_thermostat) = Inr 72"
    by (simp add: target_temperature_def example_thermostat_def)
  have c: "coordinator example_thermostat = example_coordinator"
    by (simp add: example_thermostat_def)
  have f: "vehicle_id example_coordinator = ''KNDC3DLC5N5000001''"
    "climate_desired_defrost example_coordinator = False"
    "climate_desired_heating_acc example_coordinator = False"
    by (simp_all add: example_coordinator_def new_coordinator_def)
  have s1: "start_climate steady_session example_manager ''KNDC3DLC5N5000001'' 72 False True False = None"
    and s2: "stop_climate steady_session example_manager ''KNDC3DLC5N5000001'' = None"
    by (simp_all add: steady_session_def)
  have a: "example_vehicle ''air_control_is_on'' = Some (VBool True)"
    by (simp add: example_vehicle_def)
  note hc = set_hvac_mode_commands [of "''heat_cool''" example_thermostat 72 steady_session example_manager]
  note off = set_hvac_mode_commands [of "''off''" example_thermostat 72 steady_session example_manager]
  from hc k1 t s1 have
    "async_set_hvac_mode steady_session example_manager example_thermostat ''heat_cool'' =
     ([StartClimate ''KNDC3DLC5N5000001'' 72 False True False, UpdateListeners, RequestRefresh], None)"
    by (simp add: c f)
  moreover from off k2 s2 have
    "async_set_hvac_mode steady_session example_manager example_thermostat ''off'' =
     ([StopClimate ''KNDC3DLC5N5000001'', UpdateListeners, RequestRefresh], None)"
    by (simp add: c f)
  moreover from hc a vehicle_of_example have "hvac_mode example_thermostat = ''heat_cool''"
    by (simp add: c HVACMode_HEAT_COOL_def)
  ultimately show ?thesis by simp
qed

section \<open>Properties of the refresh\<close>

lemma async_refresh_snapshot:
  "vehicle_of (fst (async_refresh sess c m)) =
     (case update_vehicle_with_cached_state sess m (vehicle_id c) of
        (Some err, m') \<Rightarrow> vehicle_of c
      | (None, m') \<Rightarrow> map_of (vehicles m') (vehicle_id c))"
  by (simp add: async_refresh_def refresh_def vehicle_of_def
      split: prod.splits option.splits)

lemma async_refresh_vehicle_id: "vehicle_id (fst (async_refresh sess c m)) = vehicle_id c"
  by (simp add: async_refresh_def refresh_def split: prod.splits option.splits sum.splits)

lemma async_refresh_keeps:
  assumes "keeps_vehicle sess (vehicle_id c)" "vehicle_of c \<noteq> None"
  shows "vehicle_of (fst (async_refresh sess c m)) \<noteq> None"
proof (cases "update_vehicle_with_cached_state sess m (vehicle_id c)")
  case (Pair r m')
  show ?thesis
  proof (cases r)
    case None
    with Pair assms(1) have "map_of (vehicles m') (vehicle_id c) \<noteq> None"
      unfolding keeps_vehicle_def by (metis fst_conv snd_conv)
    with Pair None show ?thesis by (simp add: async_refresh_snapshot)
  next
    case (Some e)
    with Pair assms(2) show ?thesis by (simp add: async_refresh_snapshot)
  qed
qed

lemma run_refreshes_keeps:
  "\<forall>sess \<in> set ss. keeps_vehicle sess (vehicle_id c) \<Longrightarrow> vehicle_of c \<noteq> None \<Longrightarrow>
     vehicle_of (fst (run_refreshes ss c m)) \<noteq> None"
proof (induction ss arbitrary: c m)
  case Nil
  then show ?case by simp
next
  case (Cons sess rest)
  obtain c' m' where step: "async_refresh sess c m = (c', m')" by (cases "async_refresh sess c m")
  have id: "vehicle_id c' = vehicle_id c"
    using async_refresh_vehicle_id [of sess c m] step by simp
  have "vehicle_of c' \<noteq> None"
    using async_refresh_keeps [of sess c m] Cons.prems step by simp
  moreover have "\<forall>s \<in> set rest. keeps_vehicle s (vehicle_id c')"
    using Cons.prems(1) id by simp
  ultimately have "vehicle_of (fst (run_refreshes rest c' m')) \<noteq> None"
    by (rule Cons.IH [rotated])
  with step show ?case by simp
qed

text \<open>
  C2 as stated fails: the first refresh sets the snapshot; a second refresh whose library
  call returns normally while the manager no longer holds the vehicle stores the empty
  dictionary, and the snapshot is absent again.
\<close>

theorem snapshot_lost_counterexample:
  "vehicle_of (fst (async_refresh steady_session fresh_coordinator example_manager)) \<noteq> None \<and>
   vehicle_of (fst (run_refreshes [steady_session, forgetful_session] fresh_coordinator
     example_manager)) = None"
proof -
  have u: "update_vehicle_with_cached_state steady_session example_manager
             (vehicle_id fresh_coordinator) = (None, example_manager)"
    by (simp add: steady_session_def example_manager_def fresh_coordinator_def
        new_coordinator_def)
  have f: "update_vehicle_with_cached_state forgetful_session m vid = (None, m\<lparr> vehicles := [] \<rparr>)"
    for m vid
    by (simp add: forgetful_session_def)
  have first: "vehicle_of (fst (async_refresh steady_session fresh_coordinator example_manager))
      = Some example_vehicle"
    by (simp add: async_refresh_snapshot u)
       (simp add: example_manager_def fresh_coordinator_def new_coordinator_def)
  have "vehicle_of (fst (async_refresh forgetful_session c m)) = None" for c m
    by (simp add: async_refresh_snapshot f)
  then have "vehicle_of (fst (run_refreshes [steady_session, forgetful_session]
      fresh_coordinator example_manager)) = None"
    by (simp split: prod.splits) (metis fst_conv)
  with first show ?thesis by simp
qed

text \<open>
  C2, amended: once the snapshot is set, a refresh leaves it absent exactly when the library
  call returns normally and the manager does not hold the vehicle id afterwards (a refresh
  that raises keeps the previous snapshot); hence the snapshot stays set over any run of
  refreshes against sessions that keep the vehicle.
\<close>

theorem snapshot_kept_unless_vehicle_missing:
  "(vehicle_of c \<noteq> None \<longrightarrow>
      (vehicle_of (fst (async_refresh sess c m)) = None \<longleftrightarrow>
         fst (update_vehicle_with_cached_state sess m (vehicle_id c)) = None \<and>
         map_of (vehicles (snd (update_vehicle_with_cached_state sess m (vehicle_id c))))
           (vehicle_id c) = None)) \<and>
   ((\<forall>s \<in> set ss. keeps_vehicle s (vehicle_id c)) \<and> vehicle_of c \<noteq> None \<longrightarrow>
      vehicle_of (fst (run_refreshes ss c m)) \<noteq> None)"
proof (intro conjI impI)
  assume "vehicle_of c \<noteq> None"
  then show "vehicle_of (fst (async_refresh sess c m)) = None \<longleftrightarrow>
         fst (update_vehicle_with_cached_state sess m (vehicle_id c)) = None \<and>
         map_of (vehicles (snd (update_vehicle_with_cached_state sess m (vehicle_id c))))
           (vehicle_id c) = None"
    by (auto simp: async_refresh_snapshot split: prod.splits option.splits)
next
  assume "(\<forall>s \<in> set ss. keeps_vehicle s (vehicle_id c)) \<and> vehicle_of c \<noteq> None"
  then show "vehicle_of (fst (run_refreshes ss c m)) \<noteq> None"
    using run_refreshes_keeps by blast
qed

text \<open>Two refreshes in a row, and one alone, against a session that keeps the vehicle.\<close>

theorem snapshot_kept_unless_vehicle_missing_witness:
  "vehicle_of (fst (run_refreshes [steady_session, steady_session] example_coordinator example_manager)) \<noteq> None \<and>
   vehicle_of (fst (async_refresh steady_session example_coordinator example_manager)) \<noteq> None"
proof -
  have id: "vehicle_id example_coordinator = ''KNDC3DLC5N5000001''"
    by (simp add: example_coordinator_def new_coordinator_def)
  have v: "vehicle_of example_coordinator \<noteq> None" by (simp add: vehicle_of_example)
  have u: "update_vehicle_with_cached_state steady_session example_manager
             (vehicle_id example_coordinator) = (None, example_manager)"
    by (simp add: id steady_session_def example_manager_def)
  have h: "map_of (vehicles example_manager) (vehicle_id example_coordinator) \<noteq> None"
    by (simp add: id example_manager_def)
  have k: "\<forall>s \<in> set [steady_session, steady_session].
             keeps_vehicle s (vehicle_id example_coordinator)"
    by (simp add: keeps_vehicle_def steady_session_def)
  note main = snapshot_kept_unless_vehicle_missing
    [of example_coordinator steady_session example_manager "[steady_session, steady_session]"]
  from main k v have "vehicle_of (fst (run_refreshes [steady_session, steady_session]
      example_coordinator example_manager)) \<noteq> None"
    by blast
  moreover from main v u h have "vehicle_of (fst (async_refresh steady_session
      example_coordinator example_manager)) \<noteq> None"
    by simp
  ultimately show ?thesis by simp
qed

section \<open>Properties of setup and of the config flow\<close>

lemma login_token_failure:
  "new_manager sess u p = Inr m0 \<Longrightarrow> fst (check_and_refresh_token sess m0) = Some err \<Longrightarrow>
     login sess u p = Inl err"
  by (auto simp: login_def split: prod.splits option.splits)

lemma login_fetch_failure:
  "new_manager sess u p = Inr m0 \<Longrightarrow> check_and_refresh_token sess m0 = (None, m1) \<Longrightarrow>
     fst (update_all_vehicles_with_cached_state sess m1) = Some err \<Longrightarrow> login sess u p = Inl err"
  by (auto simp: login_def split: prod.splits option.splits)

lemma setup_login_failure:
  assumes "login sess (conf_username entry) (conf_password entry) = Inl err"
  shows "async_setup_entry env sess hs entry =
     (Inl (setup_error err),
      hs\<lparr> domain_data := Some (case domain_data hs of None \<Rightarrow> Map.empty | Some d \<Rightarrow> d) \<rparr>,
      [SetupServices])"
  using assms by (simp add: async_setup_entry_def Let_def)

lemma setup_no_vehicles:
  assumes "login sess (conf_username entry) (conf_password entry) = Inr m" "vehicles m = []"
  shows "async_setup_entry env sess hs entry =
     (Inl (ConfigEntryError ''No vehicles found in account''),
      hs\<lparr> domain_data := Some (case domain_data hs of None \<Rightarrow> Map.empty | Some d \<Rightarrow> d) \<rparr>,
      [SetupServices])"
  using assms by (simp add: async_setup_entry_def Let_def)

lemma per_entry_state_setdefault:
  "per_entry_state (hs\<lparr> domain_data := Some (case domain_data hs of None \<Rightarrow> Map.empty | Some d \<Rightarrow> d) \<rparr>) eid
     = per_entry_state hs eid"
  by (simp add: per_entry_state_def split: option.splits)

lemma setup_error_other:
  "(\<forall>msg. err \<noteq> AuthenticationError msg) \<Longrightarrow> (\<forall>msg. err \<noteq> APIError msg) \<Longrightarrow>
     setup_error err = ConfigEntryError (''Unexpected error: '' @ exc_str err)"
  by (cases err) simp_all

lemma step_user_no_vehicles:
  assumes "login sess (username inp) (password inp) = Inr m" "vehicles m = []"
  shows "snd (async_step_user sess fl (Some inp)) = ShowForm ''user'' [(''base'', ''no_vehicles'')]"
  using assms
  by (auto simp: login_def async_step_user_def split: sum.splits prod.splits option.splits)

lemma step_user_login_failure:
  assumes "login sess (username inp) (password inp) = Inl err"
  shows "snd (async_step_user sess fl (Some inp)) = ShowForm ''user'' [(''base'', flow_error err)]"
  using assms
  by (auto simp: login_def async_step_user_def split: sum.splits prod.splits option.splits)

text \<open>
  C4: when the login boundary of setup (constructing the manager, the token refresh or the
  vehicle fetch) raises, setup raises what the handlers make of the exception, no
  coordinator has been constructed and the per-entry state is as before. An authentication
  error becomes the auth-required error, an API error the entry error with the API message,
  anything else the entry error with the generic message. The user step of the config flow
  shows its form again with the matching error.
\<close>

theorem setup_aborts_on_login_failure:
  "(login sess (conf_username entry) (conf_password entry) = Inl err \<longrightarrow>
      fst (async_setup_entry env sess hs entry) = Inl (setup_error err) \<and>
      coordinators_created (snd (snd (async_setup_entry env sess hs entry))) = [] \<and>
      per_entry_state (fst (snd (async_setup_entry env sess hs entry))) (entry_id entry) =
        per_entry_state hs (entry_id entry)) \<and>
   setup_error (AuthenticationError msg) = ConfigEntryAuthFailed msg \<and>
   setup_error (APIError msg) = ConfigEntryError (''API error: '' @ msg) \<and>
   ((\<forall>msg. err \<noteq> AuthenticationError msg) \<and> (\<forall>msg. err \<noteq> APIError msg) \<longrightarrow>
      setup_error err = ConfigEntryError (''Unexpected error: '' @ exc_str err)) \<and>
   (\<forall>m0. new_manager sess (conf_username entry) (conf_password entry) = Inr m0 \<and>
      fst (check_and_refresh_token sess m0) = Some err \<longrightarrow>
      login sess (conf_username entry) (conf_password entry) = Inl err) \<and>
   (\<forall>m0 m1. new_manager sess (conf_username entry) (conf_password entry) = Inr m0 \<and>
      check_and_refresh_token sess m0 = (None, m1) \<and>
      fst (update_all_vehicles_with_cached_state sess m1) = Some err \<longrightarrow>
      login sess (conf_username entry) (conf_password entry) = Inl err) \<and>
   (login sess (username inp) (password inp) = Inl err \<longrightarrow>
      snd (async_step_user sess fl (Some inp)) = ShowForm ''user'' [(''base'', flow_error err)])"
proof (intro conjI impI allI)
  assume h: "login sess (conf_username entry) (conf_password entry) = Inl err"
  note r = setup_login_failure [OF h, of env hs]
  show "fst (async_setup_entry env sess hs entry) = Inl (setup_error err)"
    by (simp add: r)
  show "coordinators_created (snd (snd (async_setup_entry env sess hs entry))) = []"
    by (simp add: r coordinators_created_def)
  show "per_entry_state (fst (snd (async_setup_entry env sess hs entry))) (entry_id entry) =
        per_entry_state hs (entry_id entry)"
    by (simp add: r per_entry_state_setdefault)
next
  show "setup_error (AuthenticationError msg) = ConfigEntryAuthFailed msg" by simp
  show "setup_error (APIError msg) = ConfigEntryError (''API error: '' @ msg)" by simp
next
  assume "(\<forall>msg. err \<noteq> AuthenticationError msg) \<and> (\<forall>msg. err \<noteq> APIError msg)"
  then show "setup_error err = ConfigEntryError (''Unexpected error: '' @ exc_str err)"
    by (simp add: setup_error_other)
next
  fix m0
  assume "new_manager sess (conf_username entry) (conf_password entry) = Inr m0 \<and>
      fst (check_and_refresh_token sess m0) = Some err"
  then show "login sess (conf_username entry) (conf_password entry) = Inl err"
    by (simp add: login_token_failure)
next
  fix m0 m1
  assume "new_manager sess (conf_username entry) (conf_password entry) = Inr m0 \<and>
      check_and_refresh_token sess m0 = (None, m1) \<and>
      fst (update_all_vehicles_with_cached_state sess m1) = Some err"
  then show "login sess (conf_username entry) (conf_password entry) = Inl err"
    using login_fetch_failure by blast
next
  assume "login sess (username inp) (password inp) = Inl err"
  then show "snd (async_step_user sess fl (Some inp)) = ShowForm ''user'' [(''base'', flow_error err)]"
    by (rule step_user_login_failure)
qed

text \<open>An expired login at the token refresh and an API failure at the vehicle fetch.\<close>

theorem setup_aborts_on_login_failure_witness:
  "fst (async_setup_entry example_host expired_session empty_hass example_entry) =
     Inl (ConfigEntryAuthFailed ''Login failed'') \<and>
   coordinators_created (snd (snd (async_setup_entry example_host expired_session empty_hass
     example_entry))) = [] \<and>
   per_entry_state (fst (snd (async_setup_entry example_host expired_session empty_hass
     example_entry))) ''entry-1'' = None \<and>
   fst (async_setup_entry example_host offline_session empty_hass example_entry) =
     Inl (ConfigEntryError ''API error: Service unavailable'')"
proof -
  have n1: "new_manager expired_session (conf_username example_entry) (conf_password example_entry)
              = Inr example_manager"
    and t1: "fst (check_and_refresh_token expired_session example_manager)
              = Some (AuthenticationError ''Login failed'')"
    by (simp_all add: expired_session_def steady_session_def)
  have n2: "new_manager offline_session (conf_username example_entry) (conf_password example_entry)
              = Inr example_manager"
    and t2: "check_and_refresh_token offline_session example_manager = (None, example_manager)"
    and u2: "fst (update_all_vehicles_with_cached_state offline_session example_manager)
              = Some (APIError ''Service unavailable'')"
    by (simp_all add: offline_session_def steady_session_def)
  have e: "per_entry_state empty_hass (entry_id example_entry) = None"
    "entry_id example_entry = ''entry-1''"
    by (simp_all add: per_entry_state_def empty_hass_def example_entry_def)
  note auth = setup_aborts_on_login_failure [of expired_session example_entry
      "AuthenticationError ''Login failed''" example_host empty_hass "''Login failed''"]
  note api = setup_aborts_on_login_failure [of offline_session example_entry
      "APIError ''Service unavailable''" example_host empty_hass "''Service unavailable''"]
  from auth n1 t1 have l1: "login expired_session (conf_username example_entry)
      (conf_password example_entry) = Inl (AuthenticationError ''Login failed'')"
    by blast
  from api n2 t2 u2 have l2: "login offline_session (conf_username example_entry)
      (conf_password example_entry) = Inl (APIError ''Service unavailable'')"
    by blast
  from auth l1 e api l2 show ?thesis by simp
qed

text \<open>
  C5: when login and fetch succeed and the account has no vehicle, setup raises the entry
  error \<^verbatim>\<open>No vehicles found in account\<close> without constructing a coordinator or storing
  per-entry state, and the user step of the config flow shows its form with the error
  \<^verbatim>\<open>no_vehicles\<close> instead of creating an entry.
\<close>

theorem setup_fails_without_vehicles:
  "(login sess (conf_username entry) (conf_password entry) = Inr m \<and> vehicles m = [] \<longrightarrow>
      fst (async_setup_entry env sess hs entry) =
        Inl (ConfigEntryError ''No vehicles found in account'') \<and>
      coordinators_created (snd (snd (async_setup_entry env sess hs entry))) = [] \<and>
      per_entry_state (fst (snd (async_setup_entry env sess hs entry))) (entry_id entry) =
        per_entry_state hs (entry_id entry)) \<and>
   (login sess (username inp) (password inp) = Inr m \<and> vehicles m = [] \<longrightarrow>
      snd (async_step_user sess fl (Some inp)) = ShowForm ''user'' [(''base'', ''no_vehicles'')])"
proof (intro conjI impI)
  assume h: "login sess (conf_username entry) (conf_password entry) = Inr m \<and> vehicles m = []"
  then have r: "async_setup_entry env sess hs entry =
     (Inl (ConfigEntryError ''No vehicles found in account''),
      hs\<lparr> domain_data := Some (case domain_data hs of None \<Rightarrow> Map.empty | Some d \<Rightarrow> d) \<rparr>,
      [SetupServices])"
    using setup_no_vehicles by blast
  show "fst (async_setup_entry env sess hs entry) =
        Inl (ConfigEntryError ''No vehicles found in account'')"
    by (simp add: r)
  show "coordinators_created (snd (snd (async_setup_entry env sess hs entry))) = []"
    by (simp add: r coordinators_created_def)
  show "per_entry_state (fst (snd (async_setup_entry env sess hs entry))) (entry_id entry) =
        per_entry_state hs (entry_id entry)"
    by (simp add: r per_entry_state_setdefault)
next
  assume "login sess (username inp) (password inp) = Inr m \<and> vehicles m = []"
  then show "snd (async_step_user sess fl (Some inp)) = ShowForm ''user'' [(''base'', ''no_vehicles'')]"
    using step_user_no_vehicles by blast
qed

text \<open>An account without vehicles, at setup and in the config flow.\<close>

theorem setup_fails_without_vehicles_witness:
  "fst (async_setup_entry example_host empty_account_session empty_hass example_entry) =
     Inl (ConfigEntryError ''No vehicles found in account'') \<and>
   snd (async_step_user empty_account_session new_flow (Some example_input)) =
     ShowForm ''user'' [(''base'', ''no_vehicles'')]"
proof -
  have l1: "login empty_account_session (conf_username example_entry) (conf_password example_entry)
              = Inr \<lparr> vehicles = [] \<rparr>"
    by (simp add: login_def empty_account_session_def steady_session_def)
  have l2: "login empty_account_session (username example_input) (password example_input)
              = Inr \<lparr> vehicles = [] \<rparr>"
    by (simp add: login_def empty_account_session_def steady_session_def)
  have v: "vehicles \<lparr> vehicles = [] \<rparr> = []" by simp
  from setup_fails_without_vehicles [of empty_account_session example_entry "\<lparr> vehicles = [] \<rparr>"
      example_host empty_hass example_input new_flow] l1 l2 v
  show ?thesis by blast
qed

end
